theory Spec2Isabelle
  imports Main "HOL-Library.Sublist"
begin

section \<open>The world the plugin runs in\<close>

text \<open>
  The plugin of \<^verbatim>\<open>main.go\<close> computes nothing by itself: every statement of it is a call
  to the operating system, to a child process or to the Cloud Foundry command line. The
  model makes these collaborators explicit. What the program does is recorded, call by
  call, in a trace of events; what the collaborators answer is read from an environment
  record; the files of the working directory are a map from paths to nodes, so that
  what a run leaves behind can be the starting point of the next run.
\<close>

subsection \<open>Errors\<close>

text \<open>
  A Go \<^verbatim>\<open>error\<close> is a message together with what \<^verbatim>\<open>os.IsNotExist\<close> and its
  siblings can tell about it.
\<close>

datatype errkind = ErrNotExist | ErrExist | ErrOther

datatype error = Error errkind string

fun os_IsNotExist :: "error option \<Rightarrow> bool" where
  "os_IsNotExist None = False"
| "os_IsNotExist (Some (Error k m)) = (k = ErrNotExist)"

fun Error_msg :: "error \<Rightarrow> string" where
  "Error_msg (Error k m) = m"

subsection \<open>Files\<close>

text \<open>
  A path names a regular file with its bytes, a symbolic link with its target, or
  nothing. Paths and link targets are names relative to the working directory, which is
  exact for a link that lies in the working directory itself, as the one the plugin
  creates does.
\<close>

type_synonym path = string

datatype node = File string | Link path

type_synonym fs = "path \<Rightarrow> node option"

text \<open>
  \<open>walk n fs p\<close> follows symbolic links from \<open>p\<close>, at most \<open>n\<close> of them, to the first
  name that is not a link (a regular file or a missing name); \<open>None\<close> stands for the
  kernel's "too many levels of symbolic links".
\<close>

fun walk :: "nat \<Rightarrow> fs \<Rightarrow> path \<Rightarrow> path option" where
  "walk 0 fs p =
     (case fs p of Some (Link t) \<Rightarrow> None | _ \<Rightarrow> Some p)"
| "walk (Suc n) fs p =
     (case fs p of Some (Link t) \<Rightarrow> walk n fs t | _ \<Rightarrow> Some p)"

definition maxSymlinks :: nat where
  "maxSymlinks = 40"

subsection \<open>Child processes and the platform\<close>

text \<open>An \<^verbatim>\<open>exec.Cmd\<close>: the program, its arguments, and which standard streams are wired.\<close>

record cmd =
  Prog :: string
  Args :: "string list"
  Stdin :: bool
  Stdout :: bool

datatype child_result = StartFails string | ExitsWith nat | Signaled string

text \<open>
  A service as \<^verbatim>\<open>GetServices\<close> of the plugin API returns it; the program reads its name
  and the names of the applications bound to it.
\<close>

record service =
  Name :: string
  ServicePlan :: string
  ApplicationNames :: "string list"

subsection \<open>Events, environment and state\<close>

datatype event =
    EvLookPath string
  | EvPrint string
  | EvWriteFile path string nat
  | EvStat path
  | EvSymlink path path
  | EvStart cmd
  | EvWait cmd
  | EvCliCommand "string list"
  | EvGetServices

text \<open>
  The environment gives the answer of every collaborator. Results have the shape of the
  Go calls: a value and an optional error. \<open>ioFault\<close> makes a file operation fail for a
  reason outside the file map (a missing directory, permissions, a full disk). In one
  run the program issues each request at most once, so an answer that depends only on
  the request loses no generality.
\<close>

record env =
  lookPath :: "string \<Rightarrow> string \<times> error option"
  ioFault :: "event \<Rightarrow> error option"
  child :: "cmd \<Rightarrow> child_result"
  cliCommand :: "string list \<Rightarrow> string list \<times> error option"
  getServices :: "service list \<times> error option"

record world =
  files :: fs
  trace :: "event list"

text \<open>
  A call either returns a value or halts the process: \<^verbatim>\<open>os.Exit\<close> with a code, or a
  run-time panic.
\<close>

datatype halt = Exit int | Panic string

type_synonym 'a prog = "world \<Rightarrow> (halt + 'a) \<times> world"

definition ret :: "'a \<Rightarrow> 'a prog" where
  "ret x w = (Inr x, w)"

definition bind :: "'a prog \<Rightarrow> ('a \<Rightarrow> 'b prog) \<Rightarrow> 'b prog" where
  "bind m f w = (case m w of (Inl h, w') \<Rightarrow> (Inl h, w') | (Inr x, w') \<Rightarrow> f x w')"

definition emit :: "event \<Rightarrow> unit prog" where
  "emit e w = (Inr (), w\<lparr>trace := trace w @ [e]\<rparr>)"

definition os_Exit :: "int \<Rightarrow> 'a prog" where
  "os_Exit c w = (Inl (Exit c), w)"

definition panic :: "string \<Rightarrow> 'a prog" where
  "panic m w = (Inl (Panic m), w)"

text \<open>\<^verbatim>\<open>xs[i]\<close> and \<^verbatim>\<open>xs[i:]\<close> of Go: out of range is a run-time panic.\<close>

definition index :: "'a list \<Rightarrow> nat \<Rightarrow> 'a prog" where
  "index xs i = (if i < length xs then ret (xs ! i) else panic ''index out of range'')"

definition slice_from :: "'a list \<Rightarrow> nat \<Rightarrow> 'a list prog" where
  "slice_from xs i =
     (if i \<le> length xs then ret (drop i xs) else panic ''slice bounds out of range'')"

subsection \<open>The library calls\<close>

text \<open>
  \<^verbatim>\<open>fmt.Println\<close> writes its operands separated by spaces, and a newline.
\<close>

fun joinSp :: "string list \<Rightarrow> string" where
  "joinSp [] = []"
| "joinSp [x] = x"
| "joinSp (x # y # r) = x @ '' '' @ joinSp (y # r)"

definition Println :: "string list \<Rightarrow> unit prog" where
  "Println ops = emit (EvPrint (joinSp ops @ [CHR 0x0A]))"

definition exec_LookPath :: "env \<Rightarrow> string \<Rightarrow> (string \<times> error option) prog" where
  "exec_LookPath e file = bind (emit (EvLookPath file)) (\<lambda>_. ret (lookPath e file))"

text \<open>\<^verbatim>\<open>os.Stat\<close> follows symbolic links: a link whose target is missing does not exist.\<close>

definition os_Stat :: "env \<Rightarrow> path \<Rightarrow> error option prog" where
  "os_Stat e p = bind (emit (EvStat p)) (\<lambda>_ w.
     (Inr (case ioFault e (EvStat p) of
             Some err \<Rightarrow> Some err
           | None \<Rightarrow>
              (case walk maxSymlinks (files w) p of
                 None \<Rightarrow> Some (Error ErrOther
                           (''stat '' @ p @ '': too many levels of symbolic links''))
               | Some q \<Rightarrow>
                  (case files w q of
                     None \<Rightarrow> Some (Error ErrNotExist
                               (''stat '' @ p @ '': no such file or directory''))
                   | Some _ \<Rightarrow> None))), w))"

text \<open>\<^verbatim>\<open>os.Symlink\<close> fails when the new name exists, whatever it is.\<close>

definition os_Symlink :: "env \<Rightarrow> path \<Rightarrow> path \<Rightarrow> error option prog" where
  "os_Symlink e oldname newname = bind (emit (EvSymlink oldname newname)) (\<lambda>_ w.
     (case ioFault e (EvSymlink oldname newname) of
        Some err \<Rightarrow> (Inr (Some err), w)
      | None \<Rightarrow>
         (case files w newname of
            Some _ \<Rightarrow> (Inr (Some (Error ErrExist
                        (''symlink '' @ oldname @ '' '' @ newname @ '': file exists''))), w)
          | None \<Rightarrow> (Inr None, w\<lparr>files := (files w)(newname \<mapsto> Link oldname)\<rparr>))))"

text \<open>
  \<^verbatim>\<open>ioutil.WriteFile\<close> opens the name for writing, creating or truncating the file it
  leads to, and writes the data.
\<close>

definition ioutil_WriteFile :: "env \<Rightarrow> path \<Rightarrow> string \<Rightarrow> nat \<Rightarrow> error option prog" where
  "ioutil_WriteFile e p data perm = bind (emit (EvWriteFile p data perm)) (\<lambda>_ w.
     (case ioFault e (EvWriteFile p data perm) of
        Some err \<Rightarrow> (Inr (Some err), w)
      | None \<Rightarrow>
         (case walk maxSymlinks (files w) p of
            None \<Rightarrow> (Inr (Some (Error ErrOther
                        (''open '' @ p @ '': too many levels of symbolic links''))), w)
          | Some q \<Rightarrow> (Inr None, w\<lparr>files := (files w)(q \<mapsto> File data)\<rparr>))))"

text \<open>Decimal digits of a number, for the message of a failed \<^verbatim>\<open>Wait\<close>.\<close>

definition digit :: "nat \<Rightarrow> char" where
  "digit d = ''0123456789'' ! d"

function string_of_nat :: "nat \<Rightarrow> string" where
  "string_of_nat n =
     (if n < 10 then [digit n] else string_of_nat (n div 10) @ [digit (n mod 10)])"
  by pat_completeness auto
termination
  by (relation "measure id") auto

declare string_of_nat.simps [simp del]

definition cmd_Start :: "env \<Rightarrow> cmd \<Rightarrow> error option prog" where
  "cmd_Start e c = bind (emit (EvStart c)) (\<lambda>_.
     ret (case child e c of
            StartFails m \<Rightarrow> Some (Error ErrOther m)
          | _ \<Rightarrow> None))"

definition cmd_Wait :: "env \<Rightarrow> cmd \<Rightarrow> error option prog" where
  "cmd_Wait e c = bind (emit (EvWait c)) (\<lambda>_.
     ret (case child e c of
            ExitsWith n \<Rightarrow>
              (if n = 0 then None
               else Some (Error ErrOther (''exit status '' @ string_of_nat n)))
          | Signaled s \<Rightarrow> Some (Error ErrOther (''signal: '' @ s))
          | StartFails m \<Rightarrow> Some (Error ErrOther ''exec: not started'')))"

text \<open>\<^verbatim>\<open>cmd.Run\<close> is \<^verbatim>\<open>Start\<close>, and \<^verbatim>\<open>Wait\<close> when the start succeeded.\<close>

definition cmd_Run :: "env \<Rightarrow> cmd \<Rightarrow> error option prog" where
  "cmd_Run e c = bind (cmd_Start e c) (\<lambda>err.
     case err of Some x \<Rightarrow> ret (Some x) | None \<Rightarrow> cmd_Wait e c)"

definition cli_CliCommand :: "env \<Rightarrow> string list \<Rightarrow> (string list \<times> error option) prog" where
  "cli_CliCommand e args = bind (emit (EvCliCommand args)) (\<lambda>_. ret (cliCommand e args))"

definition cli_GetServices :: "env \<Rightarrow> (service list \<times> error option) prog" where
  "cli_GetServices e = bind (emit EvGetServices) (\<lambda>_. ret (getServices e))"

section \<open>The plugin\<close>

subsection \<open>writeDevelopmentConfig\<close>

definition text_of_lines :: "string list \<Rightarrow> string" where
  "text_of_lines ls = concat (map (\<lambda>l. l @ [CHR 0x0A]) ls)"

definition developmentConfig :: string where
  \<open>developmentConfig = text_of_lines [
    '''',
    ''/**'',
    '' * Development environment settings'',
    '' */'',
    '''',
    ''if (process.env.VCAP_SERVICES) {'',
    ''  vcapServices = JSON.parse(process.env.VCAP_SERVICES);'',
    '''',
    ''  module.exports = {'',
    '''',
    ''    /***************************************************************************'',
    ''     * Set the default database connection for models in the development       *'',
    ''     * environment (see config/connections.js and config/models.js )           *'',
    ''     ***************************************************************************/'',
    '''',
    ''    models: {'',
    ''      connection: 'sailsPsql','',
    ''      migrate: 'drop'' @ [CHR 0x27],
    ''    },'',
    ''    connections: {'',
    ''      sailsPsql: {'',
    ''        adapter: 'sails-postgresql','',
    ''        url: vcapServices.elephantsql[0].credentials.uri'',
    ''      }'',
    ''    },'',
    '''',
    ''    /***************************************************************************'',
    ''     * Session configuration                                                   *'',
    ''     ***************************************************************************/'',
    '''',
    ''    session: {'',
    ''      adapter: 'redis','',
    ''      host: vcapServices.rediscloud[0].credentials.hostname,'',
    ''      port: vcapServices.rediscloud[0].credentials.port,'',
    ''      pass: vcapServices.rediscloud[0].credentials.password,'',
    ''      prefix: 'sess:','',
    ''      // ttl: <redis session TTL in seconds>,'',
    ''      // db: 0,'',
    ''    },'',
    '''',
    ''    /***************************************************************************'',
    ''     * WebSocket Configuration                                                 *'',
    ''     ***************************************************************************/'',
    '''',
    ''    sockets: {'',
    ''      adapter: 'socket.io-redis','',
    ''      host: vcapServices.rediscloud[0].credentials.hostname,'',
    ''      port: vcapServices.rediscloud[0].credentials.port,'',
    ''      pass: vcapServices.rediscloud[0].credentials.password,'',
    ''      // db: 'sails','',
    ''    },'',
    '''',
    ''    /***************************************************************************'',
    ''     * Set the port in the development environment to 80                       *'',
    ''     ***************************************************************************/'',
    '''',
    ''    port: process.env.PORT,'',
    '''',
    ''    /***************************************************************************'',
    ''     * Set the log level in development environment to "silent"                *'',
    ''     ***************************************************************************/'',
    '''',
    ''    log: {'',
    ''       level: "verbose"'',
    ''    }'',
    '''',
    ''  };'',
    ''}'']\<close>

definition localConfig :: string where
  \<open>localConfig = text_of_lines [
    '''',
    ''/**'',
    '' * Local environment settings'',
    '' */'',
    '''',
    ''module.exports = {'',
    '''',
    ''  /***************************************************************************'',
    ''   * Set the default database connection for models in the local             *'',
    ''   * environment (see config/connections.js and config/models.js )           *'',
    ''   ***************************************************************************/'',
    '''',
    ''  models: {'',
    ''    connection: 'localDiskDb','',
    ''  },'',
    ''  connections: {'',
    ''    localDiskDb: {'',
    ''      adapter: 'sails-disk','',
    ''    }'',
    ''  },'',
    '''',
    ''  /***************************************************************************'',
    ''   * Session configuration                                                   *'',
    ''   ***************************************************************************/'',
    '''',
    ''  session: {'',
    ''  },'',
    '''',
    ''  /***************************************************************************'',
    ''   * WebSocket Configuration                                                 *'',
    ''   ***************************************************************************/'',
    '''',
    ''  sockets: {'',
    ''  },'',
    '''',
    ''  /***************************************************************************'',
    ''   * Set the port in the development environment to 80                       *'',
    ''   ***************************************************************************/'',
    '''',
    ''  port: process.env.PORT || 1337,'',
    '''',
    ''  /***************************************************************************'',
    ''   * Set the log level in development environment to "silent"                *'',
    ''   ***************************************************************************/'',
    '''',
    ''  log: {'',
    ''     level: "verbose"'',
    ''  }'',
    '''',
    ''};'']\<close>

definition writeDevelopmentConfig :: "env \<Rightarrow> unit prog" where
  "writeDevelopmentConfig e =
     bind (ioutil_WriteFile e ''config/env/development.js'' developmentConfig 420) (\<lambda>err.
     bind (case err of
             Some x \<Rightarrow> bind (Println [''Error writing configuration'', Error_msg x])
                          (\<lambda>_. os_Exit 1)
           | None \<Rightarrow> ret ()) (\<lambda>_.
     bind (Println [''Updated config/env/development.js'']) (\<lambda>_.
     bind (ioutil_WriteFile e ''config/local.js'' localConfig 420) (\<lambda>err.
     bind (case err of
             Some x \<Rightarrow> bind (Println [''Error writing configuration'', Error_msg x])
                          (\<lambda>_. os_Exit 1)
           | None \<Rightarrow> ret ()) (\<lambda>_.
     Println [''Updated config/local.js''])))))"

subsection \<open>npmInstalls\<close>

definition packages :: "string list" where
  "packages = [''connect-redis@1.4.5'', ''sails-postgresql'', ''socket.io-redis'']"

definition npmSetup :: "string \<Rightarrow> cmd" where
  "npmSetup v = \<lparr>Prog = ''npm'', Args = [''install'', v, ''--save'', ''--save-exact''],
                 Stdin = False, Stdout = True\<rparr>"

text \<open>The \<^verbatim>\<open>range\<close> loop over the packages: an error is printed, and the loop goes on.\<close>

fun npmLoop :: "env \<Rightarrow> string list \<Rightarrow> unit prog" where
  "npmLoop e [] = ret ()"
| "npmLoop e (v # rest) =
     bind (cmd_Run e (npmSetup v)) (\<lambda>err.
     bind (case err of
             Some x \<Rightarrow> Println [''Error installing npm packages'', Error_msg x]
           | None \<Rightarrow> ret ()) (\<lambda>_.
     npmLoop e rest))"

definition npmInstalls :: "env \<Rightarrow> unit prog" where
  "npmInstalls e = npmLoop e packages"

subsection \<open>createServices\<close>

record flags =
  redisFound :: bool
  redisBound :: bool
  sqlFound :: bool
  sqlBound :: bool

text \<open>The inner loop over the application names of one service.\<close>

fun appLoop :: "string list \<Rightarrow> bool \<Rightarrow> bool" where
  "appLoop [] b = b"
| "appLoop (app # rest) b = appLoop rest (if app = ''hackday-nc'' then True else b)"

text \<open>The outer loop over the services: two independent tests on the name of each.\<close>

fun serviceLoop :: "service list \<Rightarrow> flags \<Rightarrow> flags" where
  "serviceLoop [] f = f"
| "serviceLoop (s # rest) f =
     (let f1 = (if Name s = ''hackday-rediscloud''
                then f\<lparr>redisFound := True,
                       redisBound := appLoop (ApplicationNames s) (redisBound f)\<rparr>
                else f);
          f2 = (if Name s = ''hackday-elephantsql''
                then f1\<lparr>sqlFound := True,
                        sqlBound := appLoop (ApplicationNames s) (sqlBound f1)\<rparr>
                else f1)
      in serviceLoop rest f2)"

text \<open>
  The statement \<^verbatim>\<open>if err != nil { fmt.Println(err); os.Exit(1) }\<close> that follows every
  call of the platform.
\<close>

definition exitOnErr :: "error option \<Rightarrow> unit prog" where
  "exitOnErr err =
     (case err of
        Some x \<Rightarrow> bind (Println [Error_msg x]) (\<lambda>_. os_Exit 1)
      | None \<Rightarrow> ret ())"

definition createServices :: "env \<Rightarrow> unit prog" where
  "createServices e =
     bind (cli_GetServices e) (\<lambda>(services, err).
     bind (exitOnErr err) (\<lambda>_.
     let f = serviceLoop services
               \<lparr>redisFound = False, redisBound = False, sqlFound = False, sqlBound = False\<rparr>
     in
     bind (if \<not> redisFound f
           then bind (cli_CliCommand e [''cs'', ''rediscloud'', ''30mb'', ''hackday-rediscloud''])
                  (\<lambda>(_, err). exitOnErr err)
           else ret ()) (\<lambda>_.
     bind (if \<not> redisBound f
           then bind (cli_CliCommand e [''bs'', ''hackday-nc'', ''hackday-rediscloud''])
                  (\<lambda>(_, err). exitOnErr err)
           else ret ()) (\<lambda>_.
     bind (if \<not> sqlFound f
           then bind (cli_CliCommand e [''cs'', ''elephantsql'', ''turtle'', ''hackday-elephantsql''])
                  (\<lambda>(_, err). exitOnErr err)
           else ret ()) (\<lambda>_.
     if \<not> sqlBound f
     then bind (cli_CliCommand e [''bs'', ''hackday-nc'', ''hackday-elephantsql''])
            (\<lambda>(_, err). exitOnErr err)
     else ret ())))))"

subsection \<open>Run\<close>

definition treelineCmd :: "string list \<Rightarrow> cmd" where
  "treelineCmd as = \<lparr>Prog = ''treeline'', Args = as, Stdin = True, Stdout = True\<rparr>"

text \<open>
  The block of \<^verbatim>\<open>config-pws\<close> that links \<^verbatim>\<open>.cfignore\<close> to \<^verbatim>\<open>.gitignore\<close> when
  \<^verbatim>\<open>os.Stat\<close> reports that \<^verbatim>\<open>.cfignore\<close> does not exist.
\<close>

definition linkCfignore :: "env \<Rightarrow> unit prog" where
  "linkCfignore e =
     bind (os_Stat e ''.cfignore'') (\<lambda>err.
     if os_IsNotExist err
     then bind (os_Symlink e ''.gitignore'' ''.cfignore'') (\<lambda>err.
            case err of
              Some x \<Rightarrow>
                bind (Println [''Could not link .cfignore to .gitignore'', Error_msg x])
                  (\<lambda>_. os_Exit 1)
            | None \<Rightarrow> ret ())
     else ret ())"

definition configPws :: "env \<Rightarrow> unit prog" where
  "configPws e =
     bind (writeDevelopmentConfig e) (\<lambda>_.
     bind (linkCfignore e) (\<lambda>_.
     bind (npmInstalls e) (\<lambda>_.
     os_Exit 0)))"

definition deploy :: "env \<Rightarrow> unit prog" where
  "deploy e =
     bind (cli_CliCommand e [''push'', ''hackday-nc'', ''--no-start'']) (\<lambda>(_, err).
     bind (exitOnErr err) (\<lambda>_.
     bind (cli_CliCommand e [''set-env'', ''hackday-nc'', ''NODE_ENV'', ''development''])
       (\<lambda>(_, err).
     bind (exitOnErr err) (\<lambda>_.
     bind (createServices e) (\<lambda>_.
     bind (cli_CliCommand e [''start'', ''hackday-nc'']) (\<lambda>(_, err).
     bind (exitOnErr err) (\<lambda>_.
     os_Exit 0)))))))"

definition passthrough :: "env \<Rightarrow> string list \<Rightarrow> unit prog" where
  "passthrough e args =
     bind (slice_from args 1) (\<lambda>tail.
     bind (cmd_Start e (treelineCmd tail)) (\<lambda>err.
     bind (case err of
             Some x \<Rightarrow> bind (Println [''Error starting command'', Error_msg x])
                          (\<lambda>_. os_Exit 1)
           | None \<Rightarrow> ret ()) (\<lambda>_.
     bind (cmd_Wait e (treelineCmd tail)) (\<lambda>err.
     case err of
       Some x \<Rightarrow> bind (Println [''Error running command'', Error_msg x]) (\<lambda>_. os_Exit 1)
     | None \<Rightarrow> ret ()))))"

text \<open>The text \<^verbatim>\<open>Please install treeline using 'npm install -g treeline'\<close>.\<close>

definition installHint :: string where
  "installHint = ''Please install treeline using 'npm install -g treeline'' @ [CHR 0x27]"

text \<open>
  The entry point. The three branches of the source are the bodies of its three
  blocks, in the order of the source; a branch that ends in \<^verbatim>\<open>os.Exit\<close> never reaches
  the next one.
\<close>

definition Run :: "env \<Rightarrow> string list \<Rightarrow> unit prog" where
  "Run e args =
     bind (index args 0) (\<lambda>a0.
     if a0 = ''treeline'' then
       bind (exec_LookPath e ''treeline'') (\<lambda>(_, err).
       bind (case err of
               Some _ \<Rightarrow>
                 bind (Println [installHint])
                   (\<lambda>_. os_Exit 1)
             | None \<Rightarrow> ret ()) (\<lambda>_.
       bind (index args 1) (\<lambda>a1.
       bind (if a1 = ''config-pws'' then configPws e else ret ()) (\<lambda>_.
       bind (index args 1) (\<lambda>a1.
       bind (if a1 = ''deploy'' then deploy e else ret ()) (\<lambda>_.
       passthrough e args))))))
     else ret ())"

section \<open>Observations and sample environments\<close>

text \<open>
  A platform on which every call succeeds and no service exists yet, with the delegated
  executable installed, and an empty working directory.
\<close>

definition envOk :: env where
  "envOk = \<lparr>lookPath = (\<lambda>_. (''/usr/local/bin/treeline'', None)),
             ioFault = (\<lambda>_. None),
             child = (\<lambda>_. ExitsWith 0),
             cliCommand = (\<lambda>_. ([], None)),
             getServices = ([], None)\<rparr>"

definition w0 :: world where
  "w0 = \<lparr>files = (\<lambda>_. None), trace = []\<rparr>"

definition notFound :: error where
  "notFound = Error ErrNotExist ''exec: treeline: executable file not found in $PATH''"

definition envNoTool :: env where
  "envNoTool = envOk\<lparr>lookPath := \<lambda>_. ([], Some notFound)\<rparr>"

definition envPushFails :: env where
  "envPushFails = envOk\<lparr>cliCommand := \<lambda>_. ([], Some (Error ErrOther ''FAILED''))\<rparr>"

text \<open>The delegated executable exits with status 2.\<close>

definition envExit2 :: env where
  "envExit2 = envOk\<lparr>child := \<lambda>_. ExitsWith 2\<rparr>"

text \<open>Both services exist and are bound to the application.\<close>

definition bothBound :: "service list" where
  "bothBound =
     [\<lparr>Name = ''hackday-rediscloud'', ServicePlan = ''30mb'',
       ApplicationNames = [''hackday-nc'']\<rparr>,
      \<lparr>Name = ''hackday-elephantsql'', ServicePlan = ''turtle'',
       ApplicationNames = [''other'', ''hackday-nc'']\<rparr>]"

definition envBound :: env where
  "envBound = envOk\<lparr>getServices := (bothBound, None)\<rparr>"

text \<open>The calls of the platform in a trace, in order, and the processes started.\<close>

fun cliCalls :: "event list \<Rightarrow> string list list" where
  "cliCalls [] = []"
| "cliCalls (EvCliCommand c # es) = c # cliCalls es"
| "cliCalls (_ # es) = cliCalls es"

fun started :: "event list \<Rightarrow> cmd list" where
  "started [] = []"
| "started (EvStart c # es) = c # started es"
| "started (_ # es) = started es"

fun printed :: "event list \<Rightarrow> string list" where
  "printed [] = []"
| "printed (EvPrint t # es) = t # printed es"
| "printed (_ # es) = printed es"

text \<open>
  What the specification says of a list of services: a service exists when one of the
  list has its name, and is bound when one of that name lists the application
  \<^verbatim>\<open>hackday-nc\<close> among its application names.
\<close>

definition serviceExists :: "service list \<Rightarrow> string \<Rightarrow> bool" where
  "serviceExists svcs n = list_ex (\<lambda>s. Name s = n) svcs"

definition serviceBound :: "service list \<Rightarrow> string \<Rightarrow> bool" where
  "serviceBound svcs n =
     list_ex (\<lambda>s. Name s = n \<and> ''hackday-nc'' \<in> set (ApplicationNames s)) svcs"

text \<open>
  The requests that a list of services makes necessary, in the order in which
  \<^verbatim>\<open>createServices\<close> issues them.
\<close>

definition needed :: "service list \<Rightarrow> string list list" where
  "needed svcs =
     (if serviceExists svcs ''hackday-rediscloud'' then []
      else [[''cs'', ''rediscloud'', ''30mb'', ''hackday-rediscloud'']]) @
     (if serviceBound svcs ''hackday-rediscloud'' then []
      else [[''bs'', ''hackday-nc'', ''hackday-rediscloud'']]) @
     (if serviceExists svcs ''hackday-elephantsql'' then []
      else [[''cs'', ''elephantsql'', ''turtle'', ''hackday-elephantsql'']]) @
     (if serviceBound svcs ''hackday-elephantsql'' then []
      else [[''bs'', ''hackday-nc'', ''hackday-elephantsql'']])"

text \<open>
  A create-service request is \<^verbatim>\<open>cs\<close> with the instance name last, a bind-service
  request is \<^verbatim>\<open>bs\<close> with the instance name last. \<open>bindThenCreate\<close> holds of a sequence
  of requests with a bind followed, later, by a create; \<open>bindThenCreateOf n\<close> asks both
  to be requests for the instance \<open>n\<close>.
\<close>

definition isCreate :: "string list \<Rightarrow> bool" where
  "isCreate c = (c \<noteq> [] \<and> hd c = ''cs'')"

definition isBind :: "string list \<Rightarrow> bool" where
  "isBind c = (c \<noteq> [] \<and> hd c = ''bs'')"

fun bindThenCreate :: "string list list \<Rightarrow> bool" where
  "bindThenCreate [] = False"
| "bindThenCreate (c # cs) = ((isBind c \<and> list_ex isCreate cs) \<or> bindThenCreate cs)"

fun bindThenCreateOf :: "string \<Rightarrow> string list list \<Rightarrow> bool" where
  "bindThenCreateOf n [] = False"
| "bindThenCreateOf n (c # cs) =
     ((isBind c \<and> last c = n \<and> list_ex (\<lambda>d. isCreate d \<and> last d = n) cs)
      \<or> bindThenCreateOf n cs)"

text \<open>
  Auxiliary: issuing a list of requests one after the other, each followed by the
  check of its error, and the requests that are issued of a list before the first
  failure ends the run.
\<close>

fun runCalls :: "env \<Rightarrow> string list list \<Rightarrow> unit prog" where
  "runCalls e [] = ret ()"
| "runCalls e (c # cs) =
     bind (bind (cli_CliCommand e c) (\<lambda>(_, err). exitOnErr err)) (\<lambda>_. runCalls e cs)"

fun issued :: "env \<Rightarrow> string list list \<Rightarrow> string list list" where
  "issued e [] = []"
| "issued e (c # cs) =
     c # (case snd (cliCommand e c) of None \<Rightarrow> issued e cs | Some _ \<Rightarrow> [])"

text \<open>
  What issuing a list of requests comes to: the outcome and the events. Each request
  is recorded; the first one that fails is followed by the print of its error and ends
  the run with code 1, and nothing after it is issued.
\<close>

fun provision :: "env \<Rightarrow> string list list \<Rightarrow> (halt + unit) \<times> event list" where
  "provision e [] = (Inr (), [])"
| "provision e (c # cs) =
     (case snd (cliCommand e c) of
        Some x \<Rightarrow> (Inl (Exit 1), [EvCliCommand c, EvPrint (Error_msg x @ [CHR 0x0A])])
      | None \<Rightarrow> (fst (provision e cs), EvCliCommand c # snd (provision e cs)))"

text \<open>A platform without services on which binding the cache service fails.\<close>

definition envBindFails :: env where
  "envBindFails =
     envOk\<lparr>cliCommand := \<lambda>c. if c = [''bs'', ''hackday-nc'', ''hackday-rediscloud'']
                                then ([], Some (Error ErrOther ''FAILED''))
                                else ([], None)\<rparr>"

text \<open>Every installation of a package fails with exit status 1.\<close>

definition envNpmFails :: env where
  "envNpmFails = envOk\<lparr>child := \<lambda>c. if Prog c = ''npm'' then ExitsWith 1 else ExitsWith 0\<rparr>"

text \<open>A name that is not a symbolic link: a regular file, or nothing.\<close>

definition plain :: "fs \<Rightarrow> path \<Rightarrow> bool" where
  "plain fs p = (case fs p of Some (Link t) \<Rightarrow> False | _ \<Rightarrow> True)"

text \<open>The error that \<^verbatim>\<open>cmd.Run\<close> returns for a command, read off the child's result.\<close>

definition runErr :: "env \<Rightarrow> cmd \<Rightarrow> error option" where
  "runErr e c =
     (case child e c of
        StartFails m \<Rightarrow> Some (Error ErrOther m)
      | ExitsWith n \<Rightarrow>
          (if n = 0 then None else Some (Error ErrOther (''exit status '' @ string_of_nat n)))
      | Signaled s \<Rightarrow> Some (Error ErrOther (''signal: '' @ s)))"

text \<open>The lines that \<^verbatim>\<open>npmInstalls\<close> prints for a list of packages.\<close>

definition installErrors :: "env \<Rightarrow> string list \<Rightarrow> string list" where
  "installErrors e ps =
     concat (map (\<lambda>v. case runErr e (npmSetup v) of
                         None \<Rightarrow> []
                       | Some x \<Rightarrow> [''Error installing npm packages '' @ Error_msg x
                                    @ [CHR 0x0A]]) ps)"

text \<open>A working directory that holds old configuration files and a \<^verbatim>\<open>.gitignore\<close>.\<close>

definition wOld :: world where
  "wOld = \<lparr>files = [''config/env/development.js'' \<mapsto> File ''old'',
                    ''config/local.js'' \<mapsto> File ''older'',
                    ''.gitignore'' \<mapsto> File ''node_modules''],
           trace = []\<rparr>"

text \<open>No file operation fails for a reason outside the file map.\<close>

definition noFault :: "event \<Rightarrow> error option" where
  "noFault ev = None"

text \<open>The invocation \<^verbatim>\<open>cf treeline config-pws\<close>.\<close>

definition cfgArgs :: "string list" where
  "cfgArgs = [''treeline'', ''config-pws'']"

section \<open>The dispatcher\<close>

lemmas prog_defs = bind_def ret_def emit_def os_Exit_def panic_def index_def slice_from_def
  Println_def exec_LookPath_def exitOnErr_def cli_CliCommand_def cli_GetServices_def

text \<open>
  C9. When argument 0 is not \<^verbatim>\<open>treeline\<close>, \<^verbatim>\<open>Run\<close> returns to the host at once: no
  event is recorded (no file written, no process started, no call of the platform), no
  file changes, and the process is not exited.
\<close>

theorem Run_other_command_no_effect:
  "a \<noteq> ''treeline'' \<Longrightarrow> Run e (a # rest) w = (Inr (), w)"
  by (simp add: Run_def prog_defs)

theorem Run_other_command_no_effect_witness:
  "''push'' \<noteq> ''treeline'' \<and> Run envOk [''push'', ''app''] w0 = (Inr (), w0)"
  using Run_other_command_no_effect [of "''push''" envOk "[''app'']" w0] by simp

text \<open>
  C2. When \<^verbatim>\<open>treeline\<close> is not on the search path, every invocation of the command,
  whatever follows the command name (\<^verbatim>\<open>config-pws\<close>, \<^verbatim>\<open>deploy\<close>, anything else, or
  nothing), looks the executable up, prints the installation instruction and exits
  with code 1. These are the only two events, and no file changes.
\<close>

theorem Run_tool_missing_exits_1:
  "lookPath e ''treeline'' = (p, Some err) \<Longrightarrow>
   Run e (''treeline'' # rest) w =
     (Inl (Exit 1),
      w\<lparr>trace := trace w @ [EvLookPath ''treeline'', EvPrint (installHint @ [CHR 0x0A])]\<rparr>)"
  by (simp add: Run_def prog_defs)

theorem Run_tool_missing_exits_1_witness:
  "lookPath envNoTool ''treeline'' = ([], Some notFound) \<and>
   Run envNoTool [''treeline'', ''deploy''] w0 =
     (Inl (Exit 1),
      w0\<lparr>trace := [EvLookPath ''treeline'', EvPrint (installHint @ [CHR 0x0A])]\<rparr>)"
  using Run_tool_missing_exits_1
    [of envNoTool "[]" notFound "[''deploy'']" w0]
  by (simp add: envNoTool_def w0_def)

text \<open>
  C10. With \<^verbatim>\<open>treeline\<close> on the search path and no argument after the command name,
  \<^verbatim>\<open>Run\<close> reads \<^verbatim>\<open>args[1]\<close> of a one-element slice: the run ends in a panic, right
  after the lookup, with nothing printed and no exit code chosen by the program.
\<close>

theorem Run_no_subcommand_panics:
  "lookPath e ''treeline'' = (p, None) \<Longrightarrow>
   Run e [''treeline''] w =
     (Inl (Panic ''index out of range''), w\<lparr>trace := trace w @ [EvLookPath ''treeline'']\<rparr>)"
  by (simp add: Run_def prog_defs)

theorem Run_no_subcommand_panics_witness:
  "lookPath envOk ''treeline'' = (''/usr/local/bin/treeline'', None) \<and>
   Run envOk [''treeline''] w0 =
     (Inl (Panic ''index out of range''), w0\<lparr>trace := [EvLookPath ''treeline'']\<rparr>)"
  using Run_no_subcommand_panics [of envOk "''/usr/local/bin/treeline''" w0]
  by (simp add: envOk_def w0_def)

lemmas proc_defs = cmd_Start_def cmd_Wait_def cmd_Run_def

text \<open>
  C3, as the code has it. For a subcommand other than \<^verbatim>\<open>config-pws\<close> and \<^verbatim>\<open>deploy\<close>,
  with \<^verbatim>\<open>treeline\<close> on the search path, the dispatcher starts \<^verbatim>\<open>treeline\<close> with exactly
  the arguments after the command name, in order, with standard input and output
  wired, and waits for it. The exit status is not mirrored: when the child cannot be
  started, exits with any status other than 0, or is killed by a signal, the
  dispatcher prints the error and exits with code 1; when the child exits with status
  0, \<^verbatim>\<open>Run\<close> returns to the host.
\<close>

theorem passthrough_forwards_tail:
  "lookPath e ''treeline'' = (p, None) \<Longrightarrow> sub \<noteq> ''config-pws'' \<Longrightarrow> sub \<noteq> ''deploy'' \<Longrightarrow>
   Run e (''treeline'' # sub # rest) w =
     (case child e (treelineCmd (sub # rest)) of
        StartFails m \<Rightarrow>
          (Inl (Exit 1),
           w\<lparr>trace := trace w @
              [EvLookPath ''treeline'', EvStart (treelineCmd (sub # rest)),
               EvPrint (''Error starting command '' @ m @ [CHR 0x0A])]\<rparr>)
      | ExitsWith n \<Rightarrow>
          (if n = 0
           then (Inr (),
                 w\<lparr>trace := trace w @
                    [EvLookPath ''treeline'', EvStart (treelineCmd (sub # rest)),
                     EvWait (treelineCmd (sub # rest))]\<rparr>)
           else (Inl (Exit 1),
                 w\<lparr>trace := trace w @
                    [EvLookPath ''treeline'', EvStart (treelineCmd (sub # rest)),
                     EvWait (treelineCmd (sub # rest)),
                     EvPrint (''Error running command exit status '' @ string_of_nat n
                              @ [CHR 0x0A])]\<rparr>))
      | Signaled s \<Rightarrow>
          (Inl (Exit 1),
           w\<lparr>trace := trace w @
              [EvLookPath ''treeline'', EvStart (treelineCmd (sub # rest)),
               EvWait (treelineCmd (sub # rest)),
               EvPrint (''Error running command signal: '' @ s @ [CHR 0x0A])]\<rparr>))"
  by (simp add: Run_def passthrough_def prog_defs proc_defs split: child_result.splits)

theorem passthrough_forwards_tail_witness:
  "lookPath envExit2 ''treeline'' = (''/usr/local/bin/treeline'', None) \<and>
   ''run'' \<noteq> ''config-pws'' \<and> ''run'' \<noteq> ''deploy'' \<and>
   Run envExit2 [''treeline'', ''run'', ''--port'', ''80''] w0 =
     (Inl (Exit 1),
      w0\<lparr>trace :=
           [EvLookPath ''treeline'', EvStart (treelineCmd [''run'', ''--port'', ''80'']),
            EvWait (treelineCmd [''run'', ''--port'', ''80'']),
            EvPrint (''Error running command exit status 2'' @ [CHR 0x0A])]\<rparr>)"
  using passthrough_forwards_tail
    [of envExit2 "''/usr/local/bin/treeline''" "''run''" "[''--port'', ''80'']" w0]
  by (simp add: envExit2_def envOk_def w0_def string_of_nat.simps digit_def)

text \<open>
  C3 as stated fails: a child that exits with status 2 makes the dispatcher exit with
  code 1, not 2.
\<close>

theorem passthrough_exit_status_counterexample:
  "child envExit2 (treelineCmd [''help'']) = ExitsWith 2 \<and>
   fst (Run envExit2 [''treeline'', ''help''] w0) = Inl (Exit 1) \<and>
   fst (Run envExit2 [''treeline'', ''help''] w0) \<noteq> Inl (Exit 2)"
  by (simp add: Run_def passthrough_def prog_defs proc_defs envExit2_def envOk_def w0_def)

section \<open>Deploy\<close>

text \<open>
  C5. When the push fails during \<^verbatim>\<open>deploy\<close>, the run consists of the lookup, the push
  and the printing of the error, and exits with code 1: no \<^verbatim>\<open>set-env\<close>, no listing,
  creation or binding of services, and no start.
\<close>

theorem deploy_push_fails_stops:
  "lookPath e ''treeline'' = (p, None) \<Longrightarrow>
   cliCommand e [''push'', ''hackday-nc'', ''--no-start''] = (out, Some err) \<Longrightarrow>
   Run e (''treeline'' # ''deploy'' # rest) w =
     (Inl (Exit 1),
      w\<lparr>trace := trace w @ [EvLookPath ''treeline'',
                              EvCliCommand [''push'', ''hackday-nc'', ''--no-start''],
                              EvPrint (Error_msg err @ [CHR 0x0A])]\<rparr>)"
  by (simp add: Run_def deploy_def prog_defs)

theorem deploy_push_fails_stops_witness:
  "lookPath envPushFails ''treeline'' =
     (''/usr/local/bin/treeline'', None) \<and>
   cliCommand envPushFails
     [''push'', ''hackday-nc'', ''--no-start''] = ([], Some (Error ErrOther ''FAILED'')) \<and>
   Run envPushFails
     [''treeline'', ''deploy''] w0 =
     (Inl (Exit 1),
      w0\<lparr>trace := [EvLookPath ''treeline'',
                     EvCliCommand [''push'', ''hackday-nc'', ''--no-start''],
                     EvPrint (''FAILED'' @ [CHR 0x0A])]\<rparr>)"
  using deploy_push_fails_stops
    [of envPushFails
        "''/usr/local/bin/treeline''" "[]" "Error ErrOther ''FAILED''" "[]" w0]
  by (simp add: envPushFails_def envOk_def w0_def)

subsection \<open>The service provisioner\<close>

text \<open>The laws of sequencing.\<close>

lemma bind_ret_left: "bind (ret x) f = f x"
  by (rule ext) (simp add: bind_def ret_def)

lemma bind_ret_right: "bind m ret = m"
  by (rule ext) (simp add: bind_def ret_def split: prod.splits sum.splits)

lemma bind_assoc: "bind (bind m f) g = bind m (\<lambda>x. bind (f x) g)"
  by (rule ext) (simp add: bind_def split: prod.splits sum.splits)

text \<open>The two loops compute what the specification calls existing and bound.\<close>

lemma appLoop_eq: "appLoop as b = (b \<or> ''hackday-nc'' \<in> set as)"
  by (induction as arbitrary: b) auto

lemma serviceLoop_redisFound:
  "redisFound (serviceLoop svcs f) = (redisFound f \<or> serviceExists svcs ''hackday-rediscloud'')"
  by (induction svcs arbitrary: f) (auto simp: serviceExists_def Let_def)

lemma serviceLoop_sqlFound:
  "sqlFound (serviceLoop svcs f) = (sqlFound f \<or> serviceExists svcs ''hackday-elephantsql'')"
  by (induction svcs arbitrary: f) (auto simp: serviceExists_def Let_def)

lemma serviceLoop_redisBound:
  "redisBound (serviceLoop svcs f) = (redisBound f \<or> serviceBound svcs ''hackday-rediscloud'')"
  by (induction svcs arbitrary: f) (auto simp: serviceBound_def Let_def appLoop_eq)

lemma serviceLoop_sqlBound:
  "sqlBound (serviceLoop svcs f) = (sqlBound f \<or> serviceBound svcs ''hackday-elephantsql'')"
  by (induction svcs arbitrary: f) (auto simp: serviceBound_def Let_def appLoop_eq)

lemmas serviceLoop_flags =
  serviceLoop_redisFound serviceLoop_sqlFound serviceLoop_redisBound serviceLoop_sqlBound

lemma serviceBound_exists: "serviceBound svcs n \<Longrightarrow> serviceExists svcs n"
  by (auto simp: serviceBound_def serviceExists_def list_ex_iff)

text \<open>
  With the list of services at hand, \<^verbatim>\<open>createServices\<close> issues the needed requests
  one after the other.
\<close>

lemma runCalls_append:
  "runCalls e (xs @ ys) = bind (runCalls e xs) (\<lambda>_. runCalls e ys)"
  by (induction xs) (simp_all add: bind_ret_left bind_assoc)

lemma exitOnErr_None: "exitOnErr None = ret ()"
  by (simp add: exitOnErr_def)

lemma createServices_needed:
  "getServices e = (svcs, None) \<Longrightarrow>
   createServices e = bind (emit EvGetServices) (\<lambda>_. runCalls e (needed svcs))"
  by (simp add: createServices_def cli_GetServices_def needed_def bind_assoc bind_ret_left
        bind_ret_right exitOnErr_None serviceLoop_flags Let_def)

lemma createServices_fails:
  "getServices e = (svcs, Some err) \<Longrightarrow>
   createServices e w =
     (Inl (Exit 1), w\<lparr>trace := trace w @ [EvGetServices, EvPrint (Error_msg err @ [CHR 0x0A])]\<rparr>)"
  by (simp add: createServices_def prog_defs)

lemma cliCalls_append: "cliCalls (xs @ ys) = cliCalls xs @ cliCalls ys"
  by (induction xs rule: cliCalls.induct) simp_all

lemma runCalls_world:
  "cliCalls (trace (snd (runCalls e cs w))) = cliCalls (trace w) @ issued e cs \<and>
   files (snd (runCalls e cs w)) = files w"
proof (induction cs arbitrary: w)
  case Nil
  show ?case by (simp add: ret_def)
next
  case (Cons c cs)
  obtain out err where c: "cliCommand e c = (out, err)" by (cases "cliCommand e c")
  show ?case
  proof (cases err)
    case None
    with c Cons [of "w\<lparr>trace := trace w @ [EvCliCommand c]\<rparr>"] show ?thesis
      by (simp add: prog_defs cliCalls_append)
  next
    case (Some x)
    with c show ?thesis
      by (simp add: prog_defs cliCalls_append)
  qed
qed

lemma issued_prefix: "prefix (issued e cs) cs"
  by (induction cs) (simp_all split: option.splits)

lemma issued_all: "list_all (\<lambda>c. snd (cliCommand e c) = None) cs \<Longrightarrow> issued e cs = cs"
  by (induction cs) simp_all

lemma bindThenCreateOf_append:
  "bindThenCreateOf n xs \<Longrightarrow> bindThenCreateOf n (xs @ zs)"
  by (induction xs) (auto simp: list_ex_iff)

lemma bindThenCreateOf_prefix:
  "prefix xs ys \<Longrightarrow> \<not> bindThenCreateOf n ys \<Longrightarrow> \<not> bindThenCreateOf n xs"
  by (auto simp: prefix_def dest: bindThenCreateOf_append)

lemma needed_ordered: "\<not> bindThenCreateOf n (needed svcs)"
  by (auto simp: needed_def isBind_def isCreate_def)

lemma createServices_calls:
  "cliCalls (trace (snd (createServices e (w\<lparr>trace := []\<rparr>)))) =
     (case snd (getServices e) of
        None \<Rightarrow> issued e (needed (fst (getServices e)))
      | Some _ \<Rightarrow> [])"
proof (cases "getServices e")
  case (Pair svcs err)
  show ?thesis
  proof (cases err)
    case None
    with Pair have "createServices e = bind (emit EvGetServices) (\<lambda>_. runCalls e (needed svcs))"
      by (simp add: createServices_needed)
    with Pair None show ?thesis
      by (simp add: bind_def emit_def runCalls_world)
  next
    case (Some x)
    with Pair show ?thesis
      by (simp add: createServices_fails)
  qed
qed

lemma runCalls_provision:
  "runCalls e cs w = (fst (provision e cs), w\<lparr>trace := trace w @ snd (provision e cs)\<rparr>)"
proof (induction cs arbitrary: w)
  case Nil
  show ?case by (simp add: ret_def)
next
  case (Cons c cs)
  obtain out err where c: "cliCommand e c = (out, err)" by (cases "cliCommand e c")
  show ?case
  proof (cases err)
    case None
    with c Cons [of "w\<lparr>trace := trace w @ [EvCliCommand c]\<rparr>"] show ?thesis
      by (simp add: prog_defs)
  next
    case (Some x)
    with c show ?thesis
      by (simp add: prog_defs)
  qed
qed

lemma createServices_provision:
  "createServices e w =
     (case snd (getServices e) of
        None \<Rightarrow>
          (fst (provision e (needed (fst (getServices e)))),
           w\<lparr>trace := trace w @
              EvGetServices # snd (provision e (needed (fst (getServices e))))\<rparr>)
      | Some x \<Rightarrow>
          (Inl (Exit 1),
           w\<lparr>trace := trace w @ [EvGetServices, EvPrint (Error_msg x @ [CHR 0x0A])]\<rparr>))"
proof (cases "getServices e")
  case (Pair svcs err)
  show ?thesis
  proof (cases err)
    case None
    with Pair have "createServices e = bind (emit EvGetServices) (\<lambda>_. runCalls e (needed svcs))"
      by (simp add: createServices_needed)
    with Pair None show ?thesis
      by (simp add: bind_def emit_def runCalls_provision)
  next
    case (Some x)
    with Pair show ?thesis
      by (simp add: createServices_fails)
  qed
qed

text \<open>
  C4, as the code has it. \<^verbatim>\<open>createServices\<close> lists the services and then issues the
  needed requests in the order create cache, bind cache, create database, bind
  database, each only when needed, and stops at the first failure: the failing
  request is the last one issued, its error is printed and the run exits with code 1;
  when no request fails all needed requests are issued and the provisioner returns.
  So the requests are an initial segment of the needed ones, and the create request of
  a service precedes the bind request of that same service: no bind of an instance is
  followed, later, by a create of that instance. The bind of the cache service does
  precede the create of the database service.
\<close>

theorem createServices_create_before_own_bind:
  "createServices e w =
     (case snd (getServices e) of
        None \<Rightarrow>
          (fst (provision e (needed (fst (getServices e)))),
           w\<lparr>trace := trace w @
              EvGetServices # snd (provision e (needed (fst (getServices e))))\<rparr>)
      | Some x \<Rightarrow>
          (Inl (Exit 1),
           w\<lparr>trace := trace w @ [EvGetServices, EvPrint (Error_msg x @ [CHR 0x0A])]\<rparr>)) \<and>
   cliCalls (trace (snd (createServices e (w\<lparr>trace := []\<rparr>)))) =
     (case snd (getServices e) of
        None \<Rightarrow> issued e (needed (fst (getServices e)))
      | Some _ \<Rightarrow> []) \<and>
   prefix (cliCalls (trace (snd (createServices e (w\<lparr>trace := []\<rparr>)))))
          (needed (fst (getServices e))) \<and>
   \<not> bindThenCreateOf n (cliCalls (trace (snd (createServices e (w\<lparr>trace := []\<rparr>))))) \<and>
   (snd (getServices e) = None \<and>
    list_all (\<lambda>c. snd (cliCommand e c) = None) (needed (fst (getServices e))) \<longrightarrow>
    cliCalls (trace (snd (createServices e (w\<lparr>trace := []\<rparr>)))) =
      needed (fst (getServices e)))"
proof -
  let ?calls = "cliCalls (trace (snd (createServices e (w\<lparr>trace := []\<rparr>))))"
  let ?need = "needed (fst (getServices e))"
  have p: "prefix ?calls ?need"
    by (simp add: createServices_calls issued_prefix split: option.splits)
  have o: "\<not> bindThenCreateOf n ?calls"
    using p needed_ordered by (rule bindThenCreateOf_prefix)
  have a: "snd (getServices e) = None \<and>
           list_all (\<lambda>c. snd (cliCommand e c) = None) ?need \<longrightarrow> ?calls = ?need"
    by (simp add: createServices_calls issued_all)
  from createServices_provision [of e w] createServices_calls [of e w] p o a
  show ?thesis by blast
qed

theorem createServices_create_before_own_bind_witness:
  "cliCalls (trace (snd (createServices envOk (w0\<lparr>trace := []\<rparr>)))) =
     [[''cs'', ''rediscloud'', ''30mb'', ''hackday-rediscloud''],
      [''bs'', ''hackday-nc'', ''hackday-rediscloud''],
      [''cs'', ''elephantsql'', ''turtle'', ''hackday-elephantsql''],
      [''bs'', ''hackday-nc'', ''hackday-elephantsql'']] \<and>
   \<not> bindThenCreateOf ''hackday-elephantsql''
       (cliCalls (trace (snd (createServices envOk (w0\<lparr>trace := []\<rparr>))))) \<and>
   createServices envBindFails w0 =
     (Inl (Exit 1),
      w0\<lparr>trace :=
           [EvGetServices,
            EvCliCommand [''cs'', ''rediscloud'', ''30mb'', ''hackday-rediscloud''],
            EvCliCommand [''bs'', ''hackday-nc'', ''hackday-rediscloud''],
            EvPrint (''FAILED'' @ [CHR 0x0A])]\<rparr>)"
  using createServices_create_before_own_bind [of envOk w0 "''hackday-elephantsql''"]
    createServices_create_before_own_bind [of envBindFails w0 "''hackday-elephantsql''"]
  by (simp add: envBindFails_def envOk_def w0_def needed_def serviceExists_def serviceBound_def
        isBind_def isCreate_def)

text \<open>
  C4 as stated fails: on a platform without services the bind of the cache service is
  followed by the create of the database service.
\<close>

theorem createServices_bind_then_create_counterexample:
  "bindThenCreate (cliCalls (trace (snd (createServices envOk w0))))"
  by (simp add: createServices_def prog_defs envOk_def w0_def Let_def isBind_def isCreate_def)

text \<open>
  C1. When the listing shows both services bound to \<^verbatim>\<open>hackday-nc\<close>, the provisioner
  does nothing but list the services: no create and no bind request. The deploy around
  it, when the lookup, the push and the \<^verbatim>\<open>set-env\<close> succeed, consists of push,
  \<^verbatim>\<open>set-env\<close>, the listing and start, and exits with code 0 when the start succeeds.
\<close>

theorem createServices_idempotent:
  assumes "getServices e = (svcs, None)"
    and "serviceBound svcs ''hackday-rediscloud''"
    and "serviceBound svcs ''hackday-elephantsql''"
  shows "createServices e w = (Inr (), w\<lparr>trace := trace w @ [EvGetServices]\<rparr>) \<and>
    (lookPath e ''treeline'' = (p, None) \<and>
     snd (cliCommand e [''push'', ''hackday-nc'', ''--no-start'']) = None \<and>
     snd (cliCommand e [''set-env'', ''hackday-nc'', ''NODE_ENV'', ''development'']) = None \<longrightarrow>
     Run e (''treeline'' # ''deploy'' # rest) w =
       (case snd (cliCommand e [''start'', ''hackday-nc'']) of
          None \<Rightarrow>
            (Inl (Exit 0),
             w\<lparr>trace := trace w @
                [EvLookPath ''treeline'',
                 EvCliCommand [''push'', ''hackday-nc'', ''--no-start''],
                 EvCliCommand [''set-env'', ''hackday-nc'', ''NODE_ENV'', ''development''],
                 EvGetServices,
                 EvCliCommand [''start'', ''hackday-nc'']]\<rparr>)
        | Some x \<Rightarrow>
            (Inl (Exit 1),
             w\<lparr>trace := trace w @
                [EvLookPath ''treeline'',
                 EvCliCommand [''push'', ''hackday-nc'', ''--no-start''],
                 EvCliCommand [''set-env'', ''hackday-nc'', ''NODE_ENV'', ''development''],
                 EvGetServices,
                 EvCliCommand [''start'', ''hackday-nc''],
                 EvPrint (Error_msg x @ [CHR 0x0A])]\<rparr>)))"
proof -
  have n: "needed svcs = []"
    using assms(2,3) by (simp add: needed_def serviceBound_exists)
  have cs: "createServices e = bind (emit EvGetServices) (\<lambda>_. ret ())"
    using assms(1) n by (simp add: createServices_needed)
  have one: "createServices e w = (Inr (), w\<lparr>trace := trace w @ [EvGetServices]\<rparr>)"
    by (simp add: cs bind_def emit_def ret_def)
  have two: "lookPath e ''treeline'' = (p, None) \<and>
     snd (cliCommand e [''push'', ''hackday-nc'', ''--no-start'']) = None \<and>
     snd (cliCommand e [''set-env'', ''hackday-nc'', ''NODE_ENV'', ''development'']) = None \<longrightarrow>
     Run e (''treeline'' # ''deploy'' # rest) w =
       (case snd (cliCommand e [''start'', ''hackday-nc'']) of
          None \<Rightarrow>
            (Inl (Exit 0),
             w\<lparr>trace := trace w @
                [EvLookPath ''treeline'',
                 EvCliCommand [''push'', ''hackday-nc'', ''--no-start''],
                 EvCliCommand [''set-env'', ''hackday-nc'', ''NODE_ENV'', ''development''],
                 EvGetServices,
                 EvCliCommand [''start'', ''hackday-nc'']]\<rparr>)
        | Some x \<Rightarrow>
            (Inl (Exit 1),
             w\<lparr>trace := trace w @
                [EvLookPath ''treeline'',
                 EvCliCommand [''push'', ''hackday-nc'', ''--no-start''],
                 EvCliCommand [''set-env'', ''hackday-nc'', ''NODE_ENV'', ''development''],
                 EvGetServices,
                 EvCliCommand [''start'', ''hackday-nc''],
                 EvPrint (Error_msg x @ [CHR 0x0A])]\<rparr>))"
    by (simp add: Run_def deploy_def cs prog_defs split: option.splits prod.splits)
  from one two show ?thesis by blast
qed

theorem createServices_idempotent_witness:
  "getServices envBound = (bothBound, None) \<and>
   serviceBound bothBound ''hackday-rediscloud'' \<and>
   serviceBound bothBound ''hackday-elephantsql'' \<and>
   createServices envBound w0 = (Inr (), w0\<lparr>trace := [EvGetServices]\<rparr>) \<and>
   Run envBound [''treeline'', ''deploy''] w0 =
     (Inl (Exit 0),
      w0\<lparr>trace :=
           [EvLookPath ''treeline'',
            EvCliCommand [''push'', ''hackday-nc'', ''--no-start''],
            EvCliCommand [''set-env'', ''hackday-nc'', ''NODE_ENV'', ''development''],
            EvGetServices,
            EvCliCommand [''start'', ''hackday-nc'']]\<rparr>)"
  using createServices_idempotent
    [of envBound bothBound w0 "''/usr/local/bin/treeline''" "[]"]
  by (simp add: envBound_def envOk_def bothBound_def serviceBound_def w0_def)

section \<open>Configuration\<close>

subsection \<open>The steps of \<^verbatim>\<open>config-pws\<close>\<close>

lemma walk_any_plain: "plain fs p \<Longrightarrow> walk n fs p = Some p"
  by (cases n) (simp_all add: plain_def split: option.splits node.splits)

lemma walk_plain: "plain fs p \<Longrightarrow> walk maxSymlinks fs p = Some p"
  by (rule walk_any_plain)

text \<open>
  \<^verbatim>\<open>cmd.Run\<close> and the loop of \<^verbatim>\<open>npmInstalls\<close> always return, and only add to the
  trace.
\<close>

lemma cmd_Run_eq:
  "\<exists>t. cmd_Run e c w = (Inr (runErr e c), w\<lparr>trace := trace w @ t\<rparr>) \<and>
       started t = [c] \<and> printed t = []"
proof (cases "child e c")
  case (StartFails m)
  then show ?thesis
    by (intro exI [of _ "[EvStart c]"]) (simp add: proc_defs prog_defs runErr_def)
next
  case (ExitsWith n)
  then show ?thesis
    by (intro exI [of _ "[EvStart c, EvWait c]"]) (simp add: proc_defs prog_defs runErr_def)
next
  case (Signaled s)
  then show ?thesis
    by (intro exI [of _ "[EvStart c, EvWait c]"]) (simp add: proc_defs prog_defs runErr_def)
qed

lemma started_append: "started (xs @ ys) = started xs @ started ys"
  by (induction xs rule: started.induct) simp_all

lemma printed_append: "printed (xs @ ys) = printed xs @ printed ys"
  by (induction xs rule: printed.induct) simp_all

lemma npmLoop_eq:
  "\<exists>t. npmLoop e ps w = (Inr (), w\<lparr>trace := trace w @ t\<rparr>) \<and>
       started t = map npmSetup ps \<and> printed t = installErrors e ps"
proof (induction ps arbitrary: w)
  case Nil
  have "npmLoop e [] w = (Inr (), w\<lparr>trace := trace w @ []\<rparr>)"
    by (simp add: ret_def)
  then show ?case
    by (metis installErrors_def concat.simps(1) list.simps(8) started.simps(1) printed.simps(1))
next
  case (Cons v ps)
  obtain t1 where t1: "cmd_Run e (npmSetup v) w = (Inr (runErr e (npmSetup v)), w\<lparr>trace := trace w @ t1\<rparr>)"
    "started t1 = [npmSetup v]" "printed t1 = []"
    using cmd_Run_eq by blast
  define t2 where "t2 = (case runErr e (npmSetup v) of None \<Rightarrow> []
     | Some x \<Rightarrow> [EvPrint (''Error installing npm packages '' @ Error_msg x @ [CHR 0x0A])])"
  define w2 where "w2 = w\<lparr>trace := trace w @ t1 @ t2\<rparr>"
  obtain t3 where t3: "npmLoop e ps w2 = (Inr (), w2\<lparr>trace := trace w2 @ t3\<rparr>)"
    "started t3 = map npmSetup ps" "printed t3 = installErrors e ps"
    using Cons [of w2] by blast
  have "npmLoop e (v # ps) w = (Inr (), w\<lparr>trace := trace w @ (t1 @ t2 @ t3)\<rparr>)"
    using t1(1) t3(1)
    by (cases "runErr e (npmSetup v)") (simp_all add: bind_def ret_def Println_def emit_def w2_def t2_def)
  moreover have "started (t1 @ t2 @ t3) = map npmSetup (v # ps)"
    using t1(2) t3(2) by (simp add: started_append t2_def split: option.splits)
  moreover have "printed (t1 @ t2 @ t3) = installErrors e (v # ps)"
    using t1(3) t3(3) by (simp add: printed_append t2_def installErrors_def split: option.splits)
  ultimately show ?case by blast
qed

text \<open>Writing the two files, at names that are not symbolic links.\<close>

lemma writeDevelopmentConfig_ok:
  assumes "ioFault e (EvWriteFile ''config/env/development.js'' developmentConfig 420) = None"
    and "ioFault e (EvWriteFile ''config/local.js'' localConfig 420) = None"
    and "plain (files w) ''config/env/development.js''"
    and "plain (files w) ''config/local.js''"
  shows "writeDevelopmentConfig e w =
    (Inr (),
     w\<lparr>files := (files w)(''config/env/development.js'' \<mapsto> File developmentConfig,
                          ''config/local.js'' \<mapsto> File localConfig),
       trace := trace w @
         [EvWriteFile ''config/env/development.js'' developmentConfig 420,
          EvPrint (''Updated config/env/development.js'' @ [CHR 0x0A]),
          EvWriteFile ''config/local.js'' localConfig 420,
          EvPrint (''Updated config/local.js'' @ [CHR 0x0A])]\<rparr>)"
proof -
  have "plain ((files w)(''config/env/development.js'' \<mapsto> File developmentConfig)) ''config/local.js''"
    using assms(4) by (simp add: plain_def)
  then have "walk maxSymlinks ((files w)(''config/env/development.js'' \<mapsto> File developmentConfig))
      ''config/local.js'' = Some ''config/local.js''"
    by (rule walk_plain)
  with assms(1,2) walk_plain [OF assms(3)] show ?thesis
    by (simp add: writeDevelopmentConfig_def ioutil_WriteFile_def prog_defs)
qed

lemma writeDevelopmentConfig_cases:
  assumes "plain (files w) ''config/env/development.js''"
    and "plain (files w) ''config/local.js''"
  shows "fst (writeDevelopmentConfig e w) = Inl (Exit 1) \<or>
    (\<exists>t. writeDevelopmentConfig e w =
      (Inr (),
       w\<lparr>files := (files w)(''config/env/development.js'' \<mapsto> File developmentConfig,
                            ''config/local.js'' \<mapsto> File localConfig),
         trace := trace w @ t\<rparr>) \<and> started t = [])"
proof (cases "ioFault e (EvWriteFile ''config/env/development.js'' developmentConfig 420) = None
    \<and> ioFault e (EvWriteFile ''config/local.js'' localConfig 420) = None")
  case True
  then show ?thesis
    using writeDevelopmentConfig_ok [OF _ _ assms, of e] by auto
next
  case False
  then have "fst (writeDevelopmentConfig e w) = Inl (Exit 1)"
    using walk_plain [OF assms(1)]
    by (auto simp: writeDevelopmentConfig_def ioutil_WriteFile_def prog_defs
          split: option.splits)
  then show ?thesis ..
qed

text \<open>The link step touches no name but \<^verbatim>\<open>.cfignore\<close>, and starts no process.\<close>

lemma linkCfignore_other_files:
  "p \<noteq> ''.cfignore'' \<Longrightarrow> files (snd (linkCfignore e w)) p = files w p"
  by (simp add: linkCfignore_def os_Stat_def os_Symlink_def prog_defs
        split: option.splits error.splits)

lemma linkCfignore_cases:
  "fst (linkCfignore e w) = Inl (Exit 1) \<or> fst (linkCfignore e w) = Inr ()"
  by (simp add: linkCfignore_def os_Stat_def os_Symlink_def prog_defs
        split: option.splits error.splits)

lemma linkCfignore_started:
  "started (trace (snd (linkCfignore e w))) = started (trace w)"
  by (simp add: linkCfignore_def os_Stat_def os_Symlink_def prog_defs started_append
        split: option.splits error.splits)

lemma linkCfignore_ok:
  "ioFault e = noFault \<Longrightarrow> plain (files w) ''.cfignore'' \<Longrightarrow>
   fst (linkCfignore e w) = Inr ()"
  by (simp add: linkCfignore_def os_Stat_def os_Symlink_def prog_defs walk_plain noFault_def
        split: option.splits error.splits)

lemma npmInstalls_world:
  "fst (npmInstalls e w) = Inr () \<and>
   files (snd (npmInstalls e w)) = files w \<and>
   started (trace (snd (npmInstalls e w))) = started (trace w) @ map npmSetup packages \<and>
   printed (trace (snd (npmInstalls e w))) = printed (trace w) @ installErrors e packages"
proof -
  obtain t where "npmLoop e packages w = (Inr (), w\<lparr>trace := trace w @ t\<rparr>)"
    "started t = map npmSetup packages" "printed t = installErrors e packages"
    using npmLoop_eq by blast
  then show ?thesis
    by (simp add: npmInstalls_def started_append printed_append)
qed

lemma bind_Inr: "m w = (Inr x, w') \<Longrightarrow> bind m f w = f x w'"
  by (simp add: bind_def)

lemma bind_Inl: "fst (m w) = Inl h \<Longrightarrow> fst (bind m f w) = Inl h"
  by (cases "m w") (auto simp: bind_def)

lemma Run_config_pws:
  "lookPath e ''treeline'' = (p, None) \<Longrightarrow>
   Run e (''treeline'' # ''config-pws'' # rest) w =
     configPws e (w\<lparr>trace := trace w @ [EvLookPath ''treeline'']\<rparr>)"
proof -
  assume "lookPath e ''treeline'' = (p, None)"
  moreover have ne: "fst (configPws e v) \<noteq> Inr ()" for v
    by (simp add: configPws_def bind_def os_Exit_def split: prod.splits sum.splits)
  have "bind (configPws e) f v = configPws e v" for f :: "unit \<Rightarrow> unit prog" and v
    using ne [of v] by (cases "configPws e v") (auto simp: bind_def split: sum.splits)
  ultimately show ?thesis
    by (simp add: Run_def exec_LookPath_def index_def bind_ret_left bind_assoc)
      (simp add: bind_def emit_def ret_def)
qed

lemma configPws_result:
  assumes "plain (files w) ''config/env/development.js''"
    and "plain (files w) ''config/local.js''"
  shows "fst (configPws e w) = Inl (Exit 1) \<or>
    (fst (configPws e w) = Inl (Exit 0) \<and>
     files (snd (configPws e w)) ''config/env/development.js'' = Some (File developmentConfig) \<and>
     files (snd (configPws e w)) ''config/local.js'' = Some (File localConfig) \<and>
     started (trace (snd (configPws e w))) = started (trace w) @ map npmSetup packages)"
proof -
  let ?rest = "\<lambda>_::unit. bind (linkCfignore e) (\<lambda>_. bind (npmInstalls e) (\<lambda>_. os_Exit 0))"
  have cp: "configPws e = bind (writeDevelopmentConfig e) ?rest"
    by (simp add: configPws_def)
  from writeDevelopmentConfig_cases [OF assms, of e] show ?thesis
  proof
    assume "fst (writeDevelopmentConfig e w) = Inl (Exit 1)"
    then have "fst (configPws e w) = Inl (Exit 1)"
      unfolding cp by (rule bind_Inl)
    then show ?thesis ..
  next
    assume "\<exists>t. writeDevelopmentConfig e w =
      (Inr (),
       w\<lparr>files := (files w)(''config/env/development.js'' \<mapsto> File developmentConfig,
                            ''config/local.js'' \<mapsto> File localConfig),
         trace := trace w @ t\<rparr>) \<and> started t = []"
    then obtain t w1 where w1: "writeDevelopmentConfig e w = (Inr (), w1)"
      "w1 = w\<lparr>files := (files w)(''config/env/development.js'' \<mapsto> File developmentConfig,
                            ''config/local.js'' \<mapsto> File localConfig),
         trace := trace w @ t\<rparr>" "started t = []"
      by blast
    have s1: "configPws e w = ?rest () w1"
      unfolding cp using w1(1) by (rule bind_Inr)
    from linkCfignore_cases [of e w1] show ?thesis
    proof
      assume "fst (linkCfignore e w1) = Inl (Exit 1)"
      then have "fst (?rest () w1) = Inl (Exit 1)" by (rule bind_Inl)
      then have "fst (configPws e w) = Inl (Exit 1)" unfolding s1 .
      then show ?thesis ..
    next
      assume ok: "fst (linkCfignore e w1) = Inr ()"
      define w2 where "w2 = snd (linkCfignore e w1)"
      define w3 where "w3 = snd (npmInstalls e w2)"
      have l: "linkCfignore e w1 = (Inr (), w2)"
        using ok by (simp add: w2_def prod_eq_iff)
      have n: "npmInstalls e w2 = (Inr (), w3)"
        using npmInstalls_world [of e w2] by (simp add: w3_def prod_eq_iff)
      have s3: "configPws e w = (Inl (Exit 0), w3)"
        using s1 l n by (simp add: bind_def os_Exit_def)
      have f2: "files w2 ''config/env/development.js'' = Some (File developmentConfig)"
        "files w2 ''config/local.js'' = Some (File localConfig)"
        unfolding w2_def by (simp_all add: linkCfignore_other_files w1(2))
      have st2: "started (trace w2) = started (trace w)"
        unfolding w2_def by (simp add: linkCfignore_started w1(2,3) started_append)
      have "files w3 = files w2"
        "started (trace w3) = started (trace w2) @ map npmSetup packages"
        unfolding w3_def using npmInstalls_world [of e w2] by simp_all
      with s3 f2 st2 show ?thesis by simp
    qed
  qed
qed

lemma configPws_ok:
  assumes "ioFault e = noFault"
    and "plain (files w) ''config/env/development.js''"
    and "plain (files w) ''config/local.js''"
    and "plain (files w) ''.cfignore''"
  shows "fst (configPws e w) = Inl (Exit 0)"
proof -
  define w1 where "w1 = w\<lparr>files := (files w)(''config/env/development.js'' \<mapsto> File developmentConfig,
                          ''config/local.js'' \<mapsto> File localConfig),
       trace := trace w @
         [EvWriteFile ''config/env/development.js'' developmentConfig 420,
          EvPrint (''Updated config/env/development.js'' @ [CHR 0x0A]),
          EvWriteFile ''config/local.js'' localConfig 420,
          EvPrint (''Updated config/local.js'' @ [CHR 0x0A])]\<rparr>"
  have w: "writeDevelopmentConfig e w = (Inr (), w1)"
    unfolding w1_def using assms(1-3) by (intro writeDevelopmentConfig_ok) (simp_all add: noFault_def)
  have "plain (files w1) ''.cfignore''"
    using assms(4) by (simp add: w1_def plain_def)
  with assms(1) have ok: "fst (linkCfignore e w1) = Inr ()"
    by (rule linkCfignore_ok)
  define w2 where "w2 = snd (linkCfignore e w1)"
  have l: "linkCfignore e w1 = (Inr (), w2)"
    using ok by (simp add: w2_def prod_eq_iff)
  define w3 where "w3 = snd (npmInstalls e w2)"
  have n: "npmInstalls e w2 = (Inr (), w3)"
    using npmInstalls_world [of e w2] by (simp add: w3_def prod_eq_iff)
  show ?thesis
    using w l n by (simp add: configPws_def bind_def os_Exit_def)
qed

subsection \<open>The files written\<close>

text \<open>
  C6. After a run of \<^verbatim>\<open>config-pws\<close> that exits with code 0, the two configuration
  files hold exactly the two templates, whatever the two names held before: another
  content, or nothing.
\<close>

theorem config_pws_writes_templates:
  assumes "fst (Run e (''treeline'' # ''config-pws'' # rest) w) = Inl (Exit 0)"
    and "plain (files w) ''config/env/development.js''"
    and "plain (files w) ''config/local.js''"
  shows "files (snd (Run e (''treeline'' # ''config-pws'' # rest) w)) ''config/env/development.js''
           = Some (File developmentConfig) \<and>
         files (snd (Run e (''treeline'' # ''config-pws'' # rest) w)) ''config/local.js''
           = Some (File localConfig)"
proof -
  obtain p err where lp: "lookPath e ''treeline'' = (p, err)"
    by (cases "lookPath e ''treeline''")
  have "err = None"
  proof (rule ccontr)
    assume "err \<noteq> None"
    with lp have "fst (Run e (''treeline'' # ''config-pws'' # rest) w) = Inl (Exit 1)"
      by (auto simp: Run_def prog_defs)
    with assms(1) show False by simp
  qed
  with lp have r: "Run e (''treeline'' # ''config-pws'' # rest) w =
      configPws e (w\<lparr>trace := trace w @ [EvLookPath ''treeline'']\<rparr>)"
    by (simp add: Run_config_pws)
  from configPws_result [of "w\<lparr>trace := trace w @ [EvLookPath ''treeline'']\<rparr>" e]
    assms show ?thesis
    unfolding r by auto
qed

theorem config_pws_writes_templates_witness:
  "fst (Run envOk [''treeline'', ''config-pws''] wOld) = Inl (Exit 0) \<and>
   files wOld ''config/env/development.js'' = Some (File ''old'') \<and>
   files wOld ''config/local.js'' = Some (File ''older'') \<and>
   files (snd (Run envOk [''treeline'', ''config-pws''] wOld)) ''config/env/development.js''
     = Some (File developmentConfig) \<and>
   files (snd (Run envOk [''treeline'', ''config-pws''] wOld)) ''config/local.js''
     = Some (File localConfig)"
proof -
  have io: "ioFault envOk = noFault" by (simp add: envOk_def noFault_def fun_eq_iff)
  have pl: "plain (files wOld) ''config/env/development.js''"
    "plain (files wOld) ''config/local.js''" "plain (files wOld) ''.cfignore''"
    by (simp_all add: wOld_def plain_def)
  have "plain (files (wOld\<lparr>trace := trace wOld @ [EvLookPath ''treeline'']\<rparr>)) ''.cfignore''"
    using pl(3) by simp
  with io pl(1,2) have "fst (configPws envOk (wOld\<lparr>trace := trace wOld @ [EvLookPath ''treeline'']\<rparr>))
      = Inl (Exit 0)"
    by (intro configPws_ok) simp_all
  moreover have "lookPath envOk ''treeline'' = (''/usr/local/bin/treeline'', None)"
    by (simp add: envOk_def)
  ultimately have ex: "fst (Run envOk [''treeline'', ''config-pws''] wOld) = Inl (Exit 0)"
    by (simp add: Run_config_pws)
  from config_pws_writes_templates [OF ex pl(1,2)] ex show ?thesis
    by (simp add: wOld_def)
qed

subsection \<open>The installs\<close>

text \<open>
  C7. Whatever the results of the child processes, \<^verbatim>\<open>npmInstalls\<close> returns, having
  started the installs of \<^verbatim>\<open>connect-redis@1.4.5\<close>, \<^verbatim>\<open>sails-postgresql\<close> and
  \<^verbatim>\<open>socket.io-redis\<close> in this order and printed one line for each that failed; and a
  run of \<^verbatim>\<open>config-pws\<close> whose file operations succeed exits with code 0 after
  starting the three installs.
\<close>

theorem npmInstalls_continue_past_failures:
  "fst (npmInstalls e w) = Inr () \<and>
   started (trace (snd (npmInstalls e w))) =
     started (trace w) @
     [npmSetup ''connect-redis@1.4.5'', npmSetup ''sails-postgresql'', npmSetup ''socket.io-redis''] \<and>
   printed (trace (snd (npmInstalls e w))) = printed (trace w) @ installErrors e packages \<and>
   (lookPath e ''treeline'' = (p, None) \<and> ioFault e = noFault \<and>
    plain (files w) ''config/env/development.js'' \<and> plain (files w) ''config/local.js'' \<and>
    plain (files w) ''.cfignore'' \<longrightarrow>
    fst (Run e (''treeline'' # ''config-pws'' # rest) w) = Inl (Exit 0) \<and>
    started (trace (snd (Run e (''treeline'' # ''config-pws'' # rest) w))) =
      started (trace w) @
      [npmSetup ''connect-redis@1.4.5'', npmSetup ''sails-postgresql'', npmSetup ''socket.io-redis''])"
proof -
  have a: "fst (npmInstalls e w) = Inr ()"
    "started (trace (snd (npmInstalls e w))) =
     started (trace w) @
     [npmSetup ''connect-redis@1.4.5'', npmSetup ''sails-postgresql'', npmSetup ''socket.io-redis'']"
    "printed (trace (snd (npmInstalls e w))) = printed (trace w) @ installErrors e packages"
    using npmInstalls_world [of e w] by (simp_all add: packages_def)
  have b: "fst (Run e (''treeline'' # ''config-pws'' # rest) w) = Inl (Exit 0) \<and>
    started (trace (snd (Run e (''treeline'' # ''config-pws'' # rest) w))) =
      started (trace w) @
      [npmSetup ''connect-redis@1.4.5'', npmSetup ''sails-postgresql'', npmSetup ''socket.io-redis'']"
    if h: "lookPath e ''treeline'' = (p, None)" "ioFault e = noFault"
      "plain (files w) ''config/env/development.js''" "plain (files w) ''config/local.js''"
      "plain (files w) ''.cfignore''"
  proof -
    let ?w = "w\<lparr>trace := trace w @ [EvLookPath ''treeline'']\<rparr>"
    have r: "Run e (''treeline'' # ''config-pws'' # rest) w = configPws e ?w"
      using h(1) by (rule Run_config_pws)
    have ok: "fst (configPws e ?w) = Inl (Exit 0)"
      using h(2-5) by (intro configPws_ok) simp_all
    from configPws_result [of ?w e] h(3,4) ok
    have "started (trace (snd (configPws e ?w))) = started (trace ?w) @ map npmSetup packages"
      by auto
    with ok show ?thesis
      unfolding r by (simp add: started_append packages_def)
  qed
  from a b show ?thesis by blast
qed

theorem npmInstalls_continue_past_failures_witness:
  "lookPath envNpmFails ''treeline'' = (''/usr/local/bin/treeline'', None) \<and>
   ioFault envNpmFails = noFault \<and>
   plain (files w0) ''config/env/development.js'' \<and> plain (files w0) ''config/local.js'' \<and>
   plain (files w0) ''.cfignore'' \<and>
   child envNpmFails (npmSetup ''connect-redis@1.4.5'') = ExitsWith 1 \<and>
   printed (trace (snd (npmInstalls envNpmFails w0))) =
     [''Error installing npm packages exit status 1'' @ [CHR 0x0A],
      ''Error installing npm packages exit status 1'' @ [CHR 0x0A],
      ''Error installing npm packages exit status 1'' @ [CHR 0x0A]] \<and>
   fst (Run envNpmFails [''treeline'', ''config-pws''] w0) = Inl (Exit 0) \<and>
   started (trace (snd (Run envNpmFails [''treeline'', ''config-pws''] w0))) =
     [npmSetup ''connect-redis@1.4.5'', npmSetup ''sails-postgresql'', npmSetup ''socket.io-redis'']"
  using npmInstalls_continue_past_failures
    [of envNpmFails w0 "''/usr/local/bin/treeline''" "[]"]
  by (simp add: envNpmFails_def envOk_def w0_def plain_def noFault_def fun_eq_iff
        installErrors_def packages_def runErr_def npmSetup_def string_of_nat.simps digit_def)

subsection \<open>Running twice\<close>

lemma walk_numeral:
  "walk (numeral k) fs p =
     (case fs p of Some (Link t) \<Rightarrow> walk (pred_numeral k) fs t | _ \<Rightarrow> Some p)"
  by (simp add: numeral_eq_Suc)

lemma linkCfignore_dangling:
  assumes "ioFault e = noFault"
    and "files w ''.cfignore'' = Some (Link ''.gitignore'')"
    and "files w ''.gitignore'' = None"
  shows "linkCfignore e w =
    (Inl (Exit 1),
     w\<lparr>trace := trace w @
        [EvStat ''.cfignore'', EvSymlink ''.gitignore'' ''.cfignore'',
         EvPrint (''Could not link .cfignore to .gitignore symlink .gitignore .cfignore: file exists''
                  @ [CHR 0x0A])]\<rparr>)"
  using assms
  by (simp add: linkCfignore_def os_Stat_def os_Symlink_def prog_defs noFault_def
        maxSymlinks_def walk_numeral)

lemma linkCfignore_absent:
  assumes "ioFault e = noFault"
    and "files w ''.cfignore'' = None"
  shows "linkCfignore e w =
    (Inr (),
     w\<lparr>files := (files w)(''.cfignore'' \<mapsto> Link ''.gitignore''),
       trace := trace w @ [EvStat ''.cfignore'', EvSymlink ''.gitignore'' ''.cfignore'']\<rparr>)"
  using assms
  by (simp add: linkCfignore_def os_Stat_def os_Symlink_def prog_defs noFault_def
        maxSymlinks_def walk_numeral)

lemma linkCfignore_resolves:
  assumes "ioFault e = noFault"
    and "files w ''.cfignore'' = Some (Link ''.gitignore'')"
    and "files w ''.gitignore'' = Some (File g)"
  shows "linkCfignore e w = (Inr (), w\<lparr>trace := trace w @ [EvStat ''.cfignore'']\<rparr>)"
  using assms
  by (simp add: linkCfignore_def os_Stat_def os_Symlink_def prog_defs noFault_def
        maxSymlinks_def walk_numeral)

lemma writeDevelopmentConfig_noFault:
  assumes "ioFault e = noFault"
    and "plain (files w) ''config/env/development.js''"
    and "plain (files w) ''config/local.js''"
  shows "\<exists>w1. writeDevelopmentConfig e w = (Inr (), w1) \<and>
    files w1 = (files w)(''config/env/development.js'' \<mapsto> File developmentConfig,
                         ''config/local.js'' \<mapsto> File localConfig) \<and>
    started (trace w1) = started (trace w) \<and>
    printed (trace w1) = printed (trace w) @
      [''Updated config/env/development.js'' @ [CHR 0x0A],
       ''Updated config/local.js'' @ [CHR 0x0A]]"
proof -
  have "ioFault e (EvWriteFile ''config/env/development.js'' developmentConfig 420) = None"
    "ioFault e (EvWriteFile ''config/local.js'' localConfig 420) = None"
    using assms(1) by (simp_all add: noFault_def)
  from writeDevelopmentConfig_ok [OF this assms(2,3)] show ?thesis
    by (simp add: started_append printed_append)
qed

lemma configPws_first_run:
  assumes "ioFault e = noFault"
    and "plain (files w) ''config/env/development.js''"
    and "plain (files w) ''config/local.js''"
    and "files w ''.cfignore'' = None"
  shows "fst (configPws e w) = Inl (Exit 0) \<and>
    files (snd (configPws e w)) =
      (files w)(''config/env/development.js'' \<mapsto> File developmentConfig,
                ''config/local.js'' \<mapsto> File localConfig,
                ''.cfignore'' \<mapsto> Link ''.gitignore'')"
proof -
  obtain w1 where w1: "writeDevelopmentConfig e w = (Inr (), w1)"
    "files w1 = (files w)(''config/env/development.js'' \<mapsto> File developmentConfig,
                         ''config/local.js'' \<mapsto> File localConfig)"
    using writeDevelopmentConfig_noFault [OF assms(1-3)] by blast
  have "files w1 ''.cfignore'' = None"
    using assms(4) by (simp add: w1(2))
  with assms(1) have l: "linkCfignore e w1 =
    (Inr (),
     w1\<lparr>files := (files w1)(''.cfignore'' \<mapsto> Link ''.gitignore''),
        trace := trace w1 @ [EvStat ''.cfignore'', EvSymlink ''.gitignore'' ''.cfignore'']\<rparr>)"
    by (rule linkCfignore_absent)
  define w2 where "w2 = w1\<lparr>files := (files w1)(''.cfignore'' \<mapsto> Link ''.gitignore''),
        trace := trace w1 @ [EvStat ''.cfignore'', EvSymlink ''.gitignore'' ''.cfignore'']\<rparr>"
  define w3 where "w3 = snd (npmInstalls e w2)"
  have n: "npmInstalls e w2 = (Inr (), w3)" "files w3 = files w2"
    using npmInstalls_world [of e w2] by (simp_all add: w3_def prod_eq_iff)
  have "configPws e w = (Inl (Exit 0), w3)"
    using w1(1) l n(1) by (simp add: configPws_def bind_def os_Exit_def w2_def)
  with n(2) show ?thesis
    by (simp add: w2_def w1(2))
qed

lemma configPws_dangling:
  assumes "ioFault e = noFault"
    and "plain (files w) ''config/env/development.js''"
    and "plain (files w) ''config/local.js''"
    and "files w ''.cfignore'' = Some (Link ''.gitignore'')"
    and "files w ''.gitignore'' = None"
  shows "fst (configPws e w) = Inl (Exit 1) \<and>
    started (trace (snd (configPws e w))) = started (trace w) \<and>
    printed (trace (snd (configPws e w))) = printed (trace w) @
      [''Updated config/env/development.js'' @ [CHR 0x0A],
       ''Updated config/local.js'' @ [CHR 0x0A],
       ''Could not link .cfignore to .gitignore symlink .gitignore .cfignore: file exists''
         @ [CHR 0x0A]]"
proof -
  obtain w1 where w1: "writeDevelopmentConfig e w = (Inr (), w1)"
    "files w1 = (files w)(''config/env/development.js'' \<mapsto> File developmentConfig,
                         ''config/local.js'' \<mapsto> File localConfig)"
    "started (trace w1) = started (trace w)"
    "printed (trace w1) = printed (trace w) @
      [''Updated config/env/development.js'' @ [CHR 0x0A],
       ''Updated config/local.js'' @ [CHR 0x0A]]"
    using writeDevelopmentConfig_noFault [OF assms(1-3)] by blast
  have "files w1 ''.cfignore'' = Some (Link ''.gitignore'')" "files w1 ''.gitignore'' = None"
    using assms(4,5) by (simp_all add: w1(2))
  with assms(1) have l: "linkCfignore e w1 =
    (Inl (Exit 1),
     w1\<lparr>trace := trace w1 @
        [EvStat ''.cfignore'', EvSymlink ''.gitignore'' ''.cfignore'',
         EvPrint (''Could not link .cfignore to .gitignore symlink .gitignore .cfignore: file exists''
                  @ [CHR 0x0A])]\<rparr>)"
    by (rule linkCfignore_dangling)
  have "configPws e w =
    (Inl (Exit 1),
     w1\<lparr>trace := trace w1 @
        [EvStat ''.cfignore'', EvSymlink ''.gitignore'' ''.cfignore'',
         EvPrint (''Could not link .cfignore to .gitignore symlink .gitignore .cfignore: file exists''
                  @ [CHR 0x0A])]\<rparr>)"
    using w1(1) l by (simp add: configPws_def bind_def)
  then show ?thesis
    by (simp add: w1(3,4) started_append printed_append)
qed

lemma envOk_facts:
  "lookPath envOk ''treeline'' = (''/usr/local/bin/treeline'', None)" "ioFault envOk = noFault"
  by (simp_all add: envOk_def noFault_def fun_eq_iff)

text \<open>
  C8 on the code. In an empty working directory (no \<^verbatim>\<open>.gitignore\<close>, no \<^verbatim>\<open>.cfignore\<close>)
  the first run of \<^verbatim>\<open>config-pws\<close> exits with code 0 and leaves \<^verbatim>\<open>.cfignore\<close> as a link
  to the missing \<^verbatim>\<open>.gitignore\<close>. In the second run \<^verbatim>\<open>os.Stat\<close> follows the link and
  reports that the file does not exist, the link is created again, which fails
  because the name exists, and the run exits with code 1 before any install.
\<close>

theorem config_pws_second_run_fails:
  "fst (Run envOk cfgArgs w0) = Inl (Exit 0) \<and>
   files (snd (Run envOk cfgArgs w0)) ''.cfignore'' = Some (Link ''.gitignore'') \<and>
   files (snd (Run envOk cfgArgs w0)) ''.gitignore'' = None \<and>
   fst (Run envOk cfgArgs ((snd (Run envOk cfgArgs w0))\<lparr>trace := []\<rparr>)) = Inl (Exit 1) \<and>
   started (trace (snd (Run envOk cfgArgs ((snd (Run envOk cfgArgs w0))\<lparr>trace := []\<rparr>)))) = [] \<and>
   printed (trace (snd (Run envOk cfgArgs ((snd (Run envOk cfgArgs w0))\<lparr>trace := []\<rparr>)))) =
     [''Updated config/env/development.js'' @ [CHR 0x0A],
      ''Updated config/local.js'' @ [CHR 0x0A],
      ''Could not link .cfignore to .gitignore symlink .gitignore .cfignore: file exists''
        @ [CHR 0x0A]]"
proof -
  let ?w = "w0\<lparr>trace := trace w0 @ [EvLookPath ''treeline'']\<rparr>"
  have r1: "Run envOk cfgArgs w0 = configPws envOk ?w"
    unfolding cfgArgs_def using envOk_facts(1) by (rule Run_config_pws)
  have first: "fst (configPws envOk ?w) = Inl (Exit 0) \<and>
    files (snd (configPws envOk ?w)) =
      (files ?w)(''config/env/development.js'' \<mapsto> File developmentConfig,
                 ''config/local.js'' \<mapsto> File localConfig,
                 ''.cfignore'' \<mapsto> Link ''.gitignore'')"
    using envOk_facts(2) by (rule configPws_first_run) (simp_all add: w0_def plain_def)
  define w1 where "w1 = (snd (Run envOk cfgArgs w0))\<lparr>trace := []\<rparr>"
  let ?v = "w1\<lparr>trace := trace w1 @ [EvLookPath ''treeline'']\<rparr>"
  have f1: "files w1 =
      (\<lambda>_. None)(''config/env/development.js'' \<mapsto> File developmentConfig,
                 ''config/local.js'' \<mapsto> File localConfig,
                 ''.cfignore'' \<mapsto> Link ''.gitignore'')"
    using first unfolding w1_def r1 by (simp add: w0_def)
  have r2: "Run envOk cfgArgs w1 = configPws envOk ?v"
    unfolding cfgArgs_def using envOk_facts(1) by (rule Run_config_pws)
  have second: "fst (configPws envOk ?v) = Inl (Exit 1) \<and>
    started (trace (snd (configPws envOk ?v))) = started (trace ?v) \<and>
    printed (trace (snd (configPws envOk ?v))) = printed (trace ?v) @
      [''Updated config/env/development.js'' @ [CHR 0x0A],
       ''Updated config/local.js'' @ [CHR 0x0A],
       ''Could not link .cfignore to .gitignore symlink .gitignore .cfignore: file exists''
         @ [CHR 0x0A]]"
    using envOk_facts(2) by (rule configPws_dangling) (simp_all add: f1 plain_def)
  have t1: "trace w1 = []" by (simp add: w1_def)
  have "fst (Run envOk cfgArgs w0) = Inl (Exit 0) \<and>
    files (snd (Run envOk cfgArgs w0)) ''.cfignore'' = Some (Link ''.gitignore'') \<and>
    files (snd (Run envOk cfgArgs w0)) ''.gitignore'' = None \<and>
    fst (Run envOk cfgArgs w1) = Inl (Exit 1) \<and>
    started (trace (snd (Run envOk cfgArgs w1))) = [] \<and>
    printed (trace (snd (Run envOk cfgArgs w1))) =
      [''Updated config/env/development.js'' @ [CHR 0x0A],
       ''Updated config/local.js'' @ [CHR 0x0A],
       ''Could not link .cfignore to .gitignore symlink .gitignore .cfignore: file exists''
         @ [CHR 0x0A]]"
    using first second unfolding r1 r2 by (simp add: t1 w0_def)
  then show ?thesis
    unfolding w1_def .
qed

lemma configPws_resolves:
  assumes "ioFault e = noFault"
    and "plain (files w) ''config/env/development.js''"
    and "plain (files w) ''config/local.js''"
    and "files w ''.cfignore'' = Some (Link ''.gitignore'')"
    and "files w ''.gitignore'' = Some (File g)"
  shows "fst (configPws e w) = Inl (Exit 0) \<and>
    files (snd (configPws e w)) =
      (files w)(''config/env/development.js'' \<mapsto> File developmentConfig,
                ''config/local.js'' \<mapsto> File localConfig)"
proof -
  obtain w1 where w1: "writeDevelopmentConfig e w = (Inr (), w1)"
    "files w1 = (files w)(''config/env/development.js'' \<mapsto> File developmentConfig,
                         ''config/local.js'' \<mapsto> File localConfig)"
    using writeDevelopmentConfig_noFault [OF assms(1-3)] by blast
  have "files w1 ''.cfignore'' = Some (Link ''.gitignore'')"
    "files w1 ''.gitignore'' = Some (File g)"
    using assms(4,5) by (simp_all add: w1(2))
  with assms(1) have l: "linkCfignore e w1 = (Inr (), w1\<lparr>trace := trace w1 @ [EvStat ''.cfignore'']\<rparr>)"
    by (rule linkCfignore_resolves)
  define w2 where "w2 = w1\<lparr>trace := trace w1 @ [EvStat ''.cfignore'']\<rparr>"
  define w3 where "w3 = snd (npmInstalls e w2)"
  have n: "npmInstalls e w2 = (Inr (), w3)" "files w3 = files w2"
    using npmInstalls_world [of e w2] by (simp_all add: w3_def prod_eq_iff)
  have "configPws e w = (Inl (Exit 0), w3)"
    using w1(1) l n(1) by (simp add: configPws_def bind_def os_Exit_def w2_def)
  with n(2) show ?thesis
    by (simp add: w2_def w1(2))
qed

text \<open>
  In a working directory that has a \<^verbatim>\<open>.gitignore\<close> and no \<^verbatim>\<open>.cfignore\<close>, with no
  outside failure, \<^verbatim>\<open>config-pws\<close> succeeds twice in a row and the second run leaves
  every file as the first run left it.
\<close>

lemma config_pws_twice_with_gitignore:
  assumes "lookPath e ''treeline'' = (p, None)" and "ioFault e = noFault"
    and "plain (files w) ''config/env/development.js''"
    and "plain (files w) ''config/local.js''"
    and "files w ''.cfignore'' = None"
    and "files w ''.gitignore'' = Some (File g)"
    and "w1 = (snd (Run e cfgArgs w))\<lparr>trace := []\<rparr>"
  shows "fst (Run e cfgArgs w) = Inl (Exit 0) \<and>
    fst (Run e cfgArgs w1) = Inl (Exit 0) \<and>
    files (snd (Run e cfgArgs w1)) = files w1"
proof -
  let ?w = "w\<lparr>trace := trace w @ [EvLookPath ''treeline'']\<rparr>"
  let ?v = "w1\<lparr>trace := trace w1 @ [EvLookPath ''treeline'']\<rparr>"
  have r1: "Run e cfgArgs w = configPws e ?w"
    unfolding cfgArgs_def using assms(1) by (rule Run_config_pws)
  have r2: "Run e cfgArgs w1 = configPws e ?v"
    unfolding cfgArgs_def using assms(1) by (rule Run_config_pws)
  have first: "fst (configPws e ?w) = Inl (Exit 0) \<and>
    files (snd (configPws e ?w)) =
      (files ?w)(''config/env/development.js'' \<mapsto> File developmentConfig,
                 ''config/local.js'' \<mapsto> File localConfig,
                 ''.cfignore'' \<mapsto> Link ''.gitignore'')"
    using assms(2) by (rule configPws_first_run) (simp_all add: assms(3-5))
  have f1: "files w1 =
      (files w)(''config/env/development.js'' \<mapsto> File developmentConfig,
                ''config/local.js'' \<mapsto> File localConfig,
                ''.cfignore'' \<mapsto> Link ''.gitignore'')"
    using first unfolding assms(7) r1 by simp
  have second: "fst (configPws e ?v) = Inl (Exit 0) \<and>
    files (snd (configPws e ?v)) =
      (files ?v)(''config/env/development.js'' \<mapsto> File developmentConfig,
                 ''config/local.js'' \<mapsto> File localConfig)"
    using assms(2)
    by (rule configPws_resolves [where g = g]) (simp_all add: f1 plain_def assms(6))
  have "files (snd (configPws e ?v)) = files w1"
    using second by (auto simp: f1 fun_eq_iff)
  with first second show ?thesis
    unfolding r1 r2 by simp
qed

end
